theory Spec2Isabelle
  imports Complex_Main
begin

unbundle bit_operations_syntax

section \<open>Vbox: box measurement, classification and status encoding\<close>

text \<open>
  A shallow embedding of the three Python sources: \<^verbatim>\<open>Vbox_v1.py\<close> (classes
  \<^verbatim>\<open>ARDOutputMap\<close> and \<^verbatim>\<open>BoxMeasurementSystem\<close>), \<^verbatim>\<open>PLC.py\<close> (class
  \<^verbatim>\<open>PLCOutputMap\<close>) and \<^verbatim>\<open>Arduinooutput.py\<close> (class \<^verbatim>\<open>ArduinoOutput\<close>).

  Conventions of the embedding.
  \<^item> Python integers are \<^typ>\<open>int\<close>; counters that only grow from 0 are \<^typ>\<open>nat\<close>.
  \<^item> Python floats are modelled by \<^typ>\<open>real\<close>: arithmetic is exact, rounding and the
    non-finite values are outside the model.
  \<^item> Truthiness tests (\<^verbatim>\<open>if is_operational:\<close>) take a \<^typ>\<open>bool\<close>.
  \<^item> Every method that mutates \<^verbatim>\<open>self\<close> takes the object and returns the updated one.
  \<^item> What the OpenCV, imutils and clock calls return is an input of the model.
\<close>

subsection \<open>The packed status byte: class ARDOutputMap\<close>

record ARDOutputMap =
  ard_output_byte :: int
  ard_output_history :: "int list"
  ard_last_update_time :: real
  ard_operational_timeout :: real

text \<open>\<^verbatim>\<open>deque(maxlen=n).append(x)\<close>: the oldest entries are dropped from the left.\<close>

definition deque_append :: "nat \<Rightarrow> 'a list \<Rightarrow> 'a \<Rightarrow> 'a list" where
  "deque_append maxlen d x = (let d' = d @ [x] in drop (length d' - maxlen) d')"

text \<open>The constructor; \<open>now\<close> is the value of \<^verbatim>\<open>time.time()\<close>.\<close>

definition ARD_init :: "real \<Rightarrow> ARDOutputMap" where
  "ARD_init now =
     \<lparr>ard_output_byte = 0b00000000, ard_output_history = [],
      ard_last_update_time = now, ard_operational_timeout = 2.0\<rparr>"

definition ARD_update_camera_status :: "bool \<Rightarrow> ARDOutputMap \<Rightarrow> ARDOutputMap" where
  "ARD_update_camera_status is_operational m =
     (if is_operational
      then m\<lparr>ard_output_byte := ard_output_byte m OR 0b00000001\<rparr>
      else m\<lparr>ard_output_byte := ard_output_byte m AND 0b11111110\<rparr>)"

definition ARD_update_error_status :: "bool \<Rightarrow> ARDOutputMap \<Rightarrow> ARDOutputMap" where
  "ARD_update_error_status has_error m =
     (if has_error
      then m\<lparr>ard_output_byte := ard_output_byte m OR 0b00000010\<rparr>
      else m\<lparr>ard_output_byte := ard_output_byte m AND 0b11111101\<rparr>)"

definition ARD_update_box_detected :: "bool \<Rightarrow> ARDOutputMap \<Rightarrow> ARDOutputMap" where
  "ARD_update_box_detected is_detected m =
     (if is_detected
      then m\<lparr>ard_output_byte := ard_output_byte m OR 0b00000100\<rparr>
      else m\<lparr>ard_output_byte := ard_output_byte m AND 0b11111011\<rparr>)"

definition ARD_update_box_type :: "string \<Rightarrow> ARDOutputMap \<Rightarrow> ARDOutputMap" where
  "ARD_update_box_type box_type m =
     (let b = ard_output_byte m AND 0b11100111 in
      if box_type = ''10x20'' then m\<lparr>ard_output_byte := b OR 0b00001000\<rparr>
      else if box_type = ''20x20'' then m\<lparr>ard_output_byte := b OR 0b00010000\<rparr>
      else if box_type = ''30x50'' then m\<lparr>ard_output_byte := b OR 0b00011000\<rparr>
      else m\<lparr>ard_output_byte := b OR 0b00000000\<rparr>)"

definition ARD_check_operational_timeout :: "real \<Rightarrow> ARDOutputMap \<Rightarrow> bool" where
  "ARD_check_operational_timeout current_time m =
     (if current_time - ard_last_update_time m > ard_operational_timeout m then False else True)"

text \<open>\<^verbatim>\<open>format(n, '08b')\<close> for a non-negative \<open>n\<close>: binary digits, zero-padded to width 8.\<close>

fun bin_digits :: "nat \<Rightarrow> string" where
  "bin_digits n =
     (if n < 2 then (if n = 0 then ''0'' else ''1'')
      else bin_digits (n div 2) @ (if n mod 2 = 0 then ''0'' else ''1''))"

definition format_08b :: "int \<Rightarrow> string" where
  "format_08b n =
     (let ds = bin_digits (nat n) in replicate (8 - length ds) (CHR ''0'') @ ds)"

record ARD_output_info =
  ard_binary :: string
  ard_camera :: string
  ard_error :: string
  ard_detection :: string
  ard_type :: string

definition ARD_get_output_string :: "ARDOutputMap \<Rightarrow> ARD_output_info" where
  "ARD_get_output_string m =
     (let camera_status = (if ard_output_byte m AND 0b00000001 \<noteq> 0 then ''1'' else ''0'');
          error_status = (if ard_output_byte m AND 0b00000010 \<noteq> 0 then ''1'' else ''0'');
          detection_status = (if ard_output_byte m AND 0b00000100 \<noteq> 0 then ''1'' else ''0'');
          type_bits = drop_bit 3 (ard_output_byte m AND 0b00011000);
          box_type_str =
            (if type_bits = 0b01 then ''10x20''
             else if type_bits = 0b10 then ''20x20''
             else if type_bits = 0b11 then ''30x50''
             else ''NONE'')
      in \<lparr>ard_binary = format_08b (ard_output_byte m), ard_camera = camera_status,
          ard_error = error_status, ard_detection = detection_status,
          ard_type = box_type_str\<rparr>)"

text \<open>\<^verbatim>\<open>send_to_ARD\<close>: the print is dropped; the byte goes to the history (capacity 5)
  and the timestamp is refreshed.\<close>

definition ARD_send_to_ARD :: "real \<Rightarrow> ARDOutputMap \<Rightarrow> ARD_output_info \<times> ARDOutputMap" where
  "ARD_send_to_ARD now m =
     (ARD_get_output_string m,
      m\<lparr>ard_output_history := deque_append 5 (ard_output_history m) (ard_output_byte m),
        ard_last_update_time := now\<rparr>)"

subsection \<open>The packed status byte: class PLCOutputMap\<close>

record PLCOutputMap =
  plc_output_byte :: int
  plc_output_history :: "int list"
  plc_last_update_time :: real
  plc_operational_timeout :: real

definition PLC_init :: "real \<Rightarrow> PLCOutputMap" where
  "PLC_init now =
     \<lparr>plc_output_byte = 0b00000000, plc_output_history = [],
      plc_last_update_time = now, plc_operational_timeout = 2.0\<rparr>"

definition PLC_update_camera_status :: "bool \<Rightarrow> PLCOutputMap \<Rightarrow> PLCOutputMap" where
  "PLC_update_camera_status is_operational m =
     (if is_operational
      then m\<lparr>plc_output_byte := plc_output_byte m OR 0b00000001\<rparr>
      else m\<lparr>plc_output_byte := plc_output_byte m AND 0b11111110\<rparr>)"

definition PLC_update_error_status :: "bool \<Rightarrow> PLCOutputMap \<Rightarrow> PLCOutputMap" where
  "PLC_update_error_status has_error m =
     (if has_error
      then m\<lparr>plc_output_byte := plc_output_byte m OR 0b00000010\<rparr>
      else m\<lparr>plc_output_byte := plc_output_byte m AND 0b11111101\<rparr>)"

definition PLC_update_box_detected :: "bool \<Rightarrow> PLCOutputMap \<Rightarrow> PLCOutputMap" where
  "PLC_update_box_detected is_detected m =
     (if is_detected
      then m\<lparr>plc_output_byte := plc_output_byte m OR 0b00000100\<rparr>
      else m\<lparr>plc_output_byte := plc_output_byte m AND 0b11111011\<rparr>)"

definition PLC_update_box_type :: "string \<Rightarrow> PLCOutputMap \<Rightarrow> PLCOutputMap" where
  "PLC_update_box_type box_type m =
     (let b = plc_output_byte m AND 0b11100111 in
      if box_type = ''10x20'' then m\<lparr>plc_output_byte := b OR 0b00001000\<rparr>
      else if box_type = ''20x20'' then m\<lparr>plc_output_byte := b OR 0b00010000\<rparr>
      else if box_type = ''30x50'' then m\<lparr>plc_output_byte := b OR 0b00011000\<rparr>
      else m\<lparr>plc_output_byte := b OR 0b00000000\<rparr>)"

record PLC_output_info =
  plc_binary :: string
  plc_decimal :: int
  plc_camera :: string
  plc_error :: string
  plc_detection :: string
  plc_type :: string

definition PLC_get_output_string :: "PLCOutputMap \<Rightarrow> PLC_output_info" where
  "PLC_get_output_string m =
     (let camera_status = (if plc_output_byte m AND 0b00000001 \<noteq> 0 then ''1'' else ''0'');
          error_status = (if plc_output_byte m AND 0b00000010 \<noteq> 0 then ''1'' else ''0'');
          detection_status = (if plc_output_byte m AND 0b00000100 \<noteq> 0 then ''1'' else ''0'');
          type_bits = drop_bit 3 (plc_output_byte m AND 0b00011000);
          box_type_str =
            (if type_bits = 0b01 then ''10x20''
             else if type_bits = 0b10 then ''20x20''
             else if type_bits = 0b11 then ''30x50''
             else ''NONE'')
      in \<lparr>plc_binary = format_08b (plc_output_byte m), plc_decimal = plc_output_byte m,
          plc_camera = camera_status, plc_error = error_status,
          plc_detection = detection_status, plc_type = box_type_str\<rparr>)"

subsection \<open>Sequences of encoder calls\<close>

text \<open>One call of an update method, with its argument.\<close>

datatype update_call =
    Camera_status bool
  | Error_status bool
  | Box_detected bool
  | Box_type string

fun ARD_call :: "ARDOutputMap \<Rightarrow> update_call \<Rightarrow> ARDOutputMap" where
  "ARD_call m (Camera_status v) = ARD_update_camera_status v m"
| "ARD_call m (Error_status v) = ARD_update_error_status v m"
| "ARD_call m (Box_detected v) = ARD_update_box_detected v m"
| "ARD_call m (Box_type t) = ARD_update_box_type t m"

fun PLC_call :: "PLCOutputMap \<Rightarrow> update_call \<Rightarrow> PLCOutputMap" where
  "PLC_call m (Camera_status v) = PLC_update_camera_status v m"
| "PLC_call m (Error_status v) = PLC_update_error_status v m"
| "PLC_call m (Box_detected v) = PLC_update_box_detected v m"
| "PLC_call m (Box_type t) = PLC_update_box_type t m"

definition ARD_calls :: "ARDOutputMap \<Rightarrow> update_call list \<Rightarrow> ARDOutputMap" where
  "ARD_calls m cs = foldl ARD_call m cs"

definition PLC_calls :: "PLCOutputMap \<Rightarrow> update_call list \<Rightarrow> PLCOutputMap" where
  "PLC_calls m cs = foldl PLC_call m cs"


subsection \<open>The line protocol: class ArduinoOutput\<close>

text \<open>The dictionary \<^verbatim>\<open>type_codes\<close>, in declaration order.\<close>

definition type_codes :: "(string \<times> int) list" where
  "type_codes =
     [(''10x20'', 0b001), (''20x20'', 0b010), (''30x50'', 0b100),
      (''NONE'', 0b000), (''UNKNOWN'', 0b111)]"

text \<open>\<^verbatim>\<open>d.get(k, default)\<close>.\<close>

definition dict_get :: "('k \<times> 'v) list \<Rightarrow> 'k \<Rightarrow> 'v \<Rightarrow> 'v" where
  "dict_get d k dflt = (case map_of d k of Some v \<Rightarrow> v | None \<Rightarrow> dflt)"

text \<open>\<^verbatim>\<open>str(n)\<close> inside the f-string, for the values that occur there: 0 and 1.\<close>

definition str_bit :: "int \<Rightarrow> string" where
  "str_bit n = (if n = 0 then ''0'' else ''1'')"

text \<open>\<^verbatim>\<open>int(b)\<close> of a Boolean.\<close>

definition int_of_bool :: "bool \<Rightarrow> int" where
  "int_of_bool b = (if b then 1 else 0)"

definition newline :: char where
  "newline = CHR 0x0A"

text \<open>The local \<^verbatim>\<open>command\<close> of \<^verbatim>\<open>update_status\<close>: the line \<^verbatim>\<open>C:E:D:T0:T1:T2\<close> and a
  newline.\<close>

definition command_line :: "bool \<Rightarrow> bool \<Rightarrow> bool \<Rightarrow> string \<Rightarrow> string" where
  "command_line camera_status error_status detection_status box_type =
     (let type_code = dict_get type_codes box_type 0b111;
          type_bit0 = drop_bit 0 type_code AND 1;
          type_bit1 = drop_bit 1 type_code AND 1;
          type_bit2 = drop_bit 2 type_code AND 1
      in str_bit (int_of_bool camera_status) @ '':'' @ str_bit (int_of_bool error_status) @ '':'' @
         str_bit (int_of_bool detection_status) @ '':'' @ str_bit type_bit0 @ '':'' @
         str_bit type_bit1 @ '':'' @ str_bit type_bit2 @ [newline])"

text \<open>\<^verbatim>\<open>str.strip()\<close>: whitespace is removed at both ends.\<close>

definition is_space :: "char \<Rightarrow> bool" where
  "is_space c = (c \<in> set [CHR '' '', CHR 0x09, CHR 0x0A, CHR 0x0B, CHR 0x0C, CHR 0x0D])"

definition strip :: "string \<Rightarrow> string" where
  "strip s = rev (dropWhile is_space (rev (dropWhile is_space s)))"

record last_output =
  lo_camera :: bool
  lo_error :: bool
  lo_detection :: bool
  lo_type :: string
  lo_type_code :: int
  lo_command :: string

record ArduinoOutput =
  simulate :: bool
  serial_connection :: bool
  ao_last_output :: "last_output option"
  ao_last_update_time :: real

text \<open>\<^verbatim>\<open>_send_to_arduino\<close>: \<open>write_ok\<close> tells whether the serial write returns
  rather than raises.\<close>

definition send_to_arduino :: "bool \<Rightarrow> ArduinoOutput \<Rightarrow> bool" where
  "send_to_arduino write_ok a =
     (if \<not> simulate a \<and> serial_connection a then (if write_ok then True else False)
      else False)"

definition update_status ::
  "bool \<Rightarrow> bool \<Rightarrow> bool \<Rightarrow> string \<Rightarrow> bool \<Rightarrow> real \<Rightarrow> ArduinoOutput \<Rightarrow> bool \<times> ArduinoOutput" where
  "update_status camera_status error_status detection_status box_type write_ok now a =
     (let command = command_line camera_status error_status detection_status box_type;
          success = send_to_arduino write_ok a
      in (success,
          a\<lparr>ao_last_output :=
              Some \<lparr>lo_camera = camera_status, lo_error = error_status,
                    lo_detection = detection_status, lo_type = box_type,
                    lo_type_code = dict_get type_codes box_type 0b111,
                    lo_command = strip command\<rparr>,
            ao_last_update_time := now\<rparr>))"

subsection \<open>Reading the two wire forms back\<close>

text \<open>The logical fields of a status: camera, error, detected, type label.\<close>

type_synonym status_fields = "bool \<times> bool \<times> bool \<times> string"

text \<open>The packed byte is read back by \<^verbatim>\<open>get_output_string\<close>; its fields are the strings
  \<^verbatim>\<open>"1"\<close> and \<^verbatim>\<open>"0"\<close> and the type label.\<close>

definition decode_packed :: "ARDOutputMap \<Rightarrow> status_fields" where
  "decode_packed m =
     (let info = ARD_get_output_string m
      in (ard_camera info = ''1'', ard_error info = ''1'', ard_detection info = ''1'',
          ard_type info))"

fun split_on :: "char \<Rightarrow> string \<Rightarrow> string list" where
  "split_on c [] = [[]]"
| "split_on c (x # xs) =
     (if x = c then [] # split_on c xs
      else (case split_on c xs of
              [] \<Rightarrow> [[x]]
            | w # ws \<Rightarrow> (x # w) # ws))"

definition parse_bit :: "string \<Rightarrow> int option" where
  "parse_bit f = (if f = ''0'' then Some 0 else if f = ''1'' then Some 1 else None)"

text \<open>The label of a 3-bit type code: the key of \<^verbatim>\<open>type_codes\<close> that carries it.\<close>

definition type_of_code :: "int \<Rightarrow> string option" where
  "type_of_code code = map_option fst (find (\<lambda>kv. snd kv = code) type_codes)"

text \<open>
  Modelled from the spec: the receiver of the line protocol is not part of the sources.
  The line is \<^verbatim>\<open><camera>:<error>:<detected>:<t0>:<t1>:<t2>\<close> and a newline, each field
  \<^verbatim>\<open>0\<close> or \<^verbatim>\<open>1\<close>, and \<^verbatim>\<open>t0\<close>, \<^verbatim>\<open>t1\<close>, \<^verbatim>\<open>t2\<close> are the least, middle and most
  significant bit of the 3-bit type code of the table \<^verbatim>\<open>type_codes\<close>.
\<close>

definition decode_line :: "string \<Rightarrow> status_fields option" where
  "decode_line line =
     (case map parse_bit (split_on (CHR '':'') (strip line)) of
        [Some c, Some e, Some d, Some t0, Some t1, Some t2] \<Rightarrow>
          (case type_of_code (t0 + 2 * t1 + 4 * t2) of
             Some ty \<Rightarrow> Some (c = 1, e = 1, d = 1, ty)
           | None \<Rightarrow> None)
      | _ \<Rightarrow> None)"

subsection \<open>Geometry\<close>

type_synonym point = "real \<times> real"

text \<open>A box is what \<^verbatim>\<open>perspective.order_points\<close> returns: four corners in the order
  top-left, top-right, bottom-right, bottom-left.\<close>

type_synonym box = "point \<times> point \<times> point \<times> point"

text \<open>\<^verbatim>\<open>box[i]\<close> for \<open>i\<close> in \<open>0..3\<close>.\<close>

fun corner :: "box \<Rightarrow> nat \<Rightarrow> point" where
  "corner (p_tl, p_tr, p_br, p_bl) i =
     (if i = 0 then p_tl else if i = 1 then p_tr else if i = 2 then p_br else p_bl)"

text \<open>\<^verbatim>\<open>scipy.spatial.distance.euclidean\<close>.\<close>

definition euclidean :: "point \<Rightarrow> point \<Rightarrow> real" where
  "euclidean u v = sqrt ((fst u - fst v)\<^sup>2 + (snd u - snd v)\<^sup>2)"

definition vec_sub :: "point \<Rightarrow> point \<Rightarrow> point" where
  "vec_sub p q = (fst p - fst q, snd p - snd q)"

definition dot :: "point \<Rightarrow> point \<Rightarrow> real" where
  "dot v w = fst v * fst w + snd v * snd w"

text \<open>\<^verbatim>\<open>np.linalg.norm\<close> of a vector.\<close>

definition norm2 :: "point \<Rightarrow> real" where
  "norm2 v = sqrt ((fst v)\<^sup>2 + (snd v)\<^sup>2)"

text \<open>\<^verbatim>\<open>math.acos\<close> raises \<^verbatim>\<open>ValueError\<close> outside \<open>[-1, 1]\<close>.\<close>

datatype py_error = ValueError | TypeError | IOError | ZeroDivisionError

definition acos :: "real \<Rightarrow> py_error + real" where
  "acos x = (if -1 \<le> x \<and> x \<le> 1 then Inr (arccos x) else Inl ValueError)"

definition degrees :: "real \<Rightarrow> real" where
  "degrees x = x * 180 / pi"

subsection \<open>class BoxMeasurementSystem: state\<close>

record system_errors =
  camera_error :: bool
  calibration_error :: bool
  processing_error :: bool
  timeout_error :: bool

text \<open>\<^verbatim>\<open>any(self.system_errors.values())\<close>.\<close>

definition any_error :: "system_errors \<Rightarrow> bool" where
  "any_error e = (camera_error e \<or> calibration_error e \<or> processing_error e \<or> timeout_error e)"

text \<open>The attributes the measurement pipeline reads and writes. \<^verbatim>\<open>pixels_per_cm\<close> is
  \<^verbatim>\<open>None\<close> until it is computed or loaded; \<^verbatim>\<open>last_stable_type\<close> is \<^verbatim>\<open>None\<close> or a
  label. \<^verbatim>\<open>box_types\<close> is the dictionary in declaration order.\<close>

record BoxMeasurementSystem =
  box_types :: "(string \<times> real \<times> real) list"
  tolerance_cm :: real
  min_rectangle_score :: real
  max_angle_deviation :: real
  pixels_per_cm :: "real option"
  calibrated :: bool
  reference_width_cm :: real
  reference_height_cm :: real
  box_type_history :: "string list"
  ARD_output :: ARDOutputMap
  system_errors :: system_errors
  stable_detection_count :: nat
  last_stable_type :: "string option"
  total_boxes :: nat
  valid_boxes :: nat
  frames_processed :: nat

text \<open>\<^verbatim>\<open>__init__\<close>; \<open>now\<close> is the clock value the encoder's constructor reads.\<close>

definition BMS_init :: "real \<Rightarrow> BoxMeasurementSystem" where
  "BMS_init now =
     \<lparr>box_types = [(''10x20'', (10.0, 20.0)), (''20x20'', (20.0, 20.0)), (''30x50'', (30.0, 50.0))],
      tolerance_cm = 3.0,
      min_rectangle_score = 0.1,
      max_angle_deviation = 10,
      pixels_per_cm = None,
      calibrated = False,
      reference_width_cm = 1,
      reference_height_cm = 1,
      box_type_history = [],
      ARD_output = ARD_init now,
      system_errors = \<lparr>camera_error = False, calibration_error = False,
                         processing_error = False, timeout_error = False\<rparr>,
      stable_detection_count = 0,
      last_stable_type = None,
      total_boxes = 0,
      valid_boxes = 0,
      frames_processed = 0\<rparr>"

subsection \<open>is\_aligned\_rectangle\<close>

text \<open>The angle of \<^verbatim>\<open>cv2.minAreaRect\<close> is folded: below \<open>-45\<close> it is raised by 90, then the
  absolute value is taken.\<close>

definition normalize_angle :: "real \<Rightarrow> real" where
  "normalize_angle angle = \<bar>if angle < -45 then 90 + angle else angle\<bar>"

text \<open>The test of the first \<^verbatim>\<open>return False, None, None\<close>: the candidate is turned away
  when the folded angle lies strictly between the deviation and its complement.\<close>

definition angle_rejected :: "BoxMeasurementSystem \<Rightarrow> real \<Rightarrow> bool" where
  "angle_rejected s angle =
     (angle > max_angle_deviation s \<and> angle < 90 - max_angle_deviation s)"

text \<open>One pass of the loop over the four corners, for the index \<open>i\<close>: the interior
  angle in degrees, the early return on a zero norm, or the exception \<^verbatim>\<open>math.acos\<close>
  raises.\<close>

datatype corner_result = Corner_angle real | Corner_zero_norm | Corner_raised py_error

definition corner_angle :: "box \<Rightarrow> nat \<Rightarrow> corner_result" where
  "corner_angle b i =
     (let p1 = corner b i;
          p2 = corner b ((i + 1) mod 4);
          p3 = corner b ((i + 2) mod 4);
          v1 = vec_sub p2 p1;
          v2 = vec_sub p2 p3;
          d = dot v1 v2;
          n = norm2 v1 * norm2 v2
      in if n = 0 then Corner_zero_norm
         else (let cos_angle = max (-1.0) (min 1.0 (d / n))
               in case acos cos_angle of
                    Inl e \<Rightarrow> Corner_raised e
                  | Inr a \<Rightarrow> Corner_angle (degrees a)))"

text \<open>The loop \<^verbatim>\<open>for i in range(4)\<close>, with the list \<^verbatim>\<open>angles\<close> it appends to.\<close>

datatype angles_result = Angles "real list" | Zero_norm | Raised py_error

fun interior_angles :: "box \<Rightarrow> nat list \<Rightarrow> real list \<Rightarrow> angles_result" where
  "interior_angles b [] angles = Angles angles"
| "interior_angles b (i # rest) angles =
     (case corner_angle b i of
        Corner_zero_norm \<Rightarrow> Zero_norm
      | Corner_raised e \<Rightarrow> Raised e
      | Corner_angle a \<Rightarrow> interior_angles b rest (angles @ [a]))"

text \<open>
  \<^verbatim>\<open>is_aligned_rectangle\<close>, from the point where OpenCV has produced the rotation angle
  and imutils the ordered corners. The result is the triple the method returns; the
  \<^verbatim>\<open>except\<close> clause turns every exception into \<^verbatim>\<open>(False, None, None)\<close>.
\<close>

definition is_aligned_rectangle ::
  "BoxMeasurementSystem \<Rightarrow> real \<Rightarrow> box \<Rightarrow> bool \<times> box option \<times> real option" where
  "is_aligned_rectangle s raw_angle b =
     (let angle = normalize_angle raw_angle
      in if angle_rejected s angle then (False, None, None)
         else (case interior_angles b [0, 1, 2, 3] [] of
                 Zero_norm \<Rightarrow> (False, None, None)
               | Raised e \<Rightarrow> (False, None, None)
               | Angles angles \<Rightarrow>
                   (let angle_score =
                          sum_list (map (\<lambda>a. min \<bar>a - 90\<bar> (180 - \<bar>a - 90\<bar>)) angles) / 4.0;
                        width = euclidean (corner b 0) (corner b 1);
                        height = euclidean (corner b 1) (corner b 2)
                    in if width = 0 \<or> height = 0 then (False, None, None)
                       else (let rectangle_score = 1.0 - min (angle_score / 90.0) 1.0
                             in (rectangle_score \<ge> min_rectangle_score s, Some b, Some angle)))))"

subsection \<open>Calibration, measurement, classification\<close>

text \<open>
  \<^verbatim>\<open>calibrate_with_reference\<close>, from the ordered corners of the reference rectangle.
  \<open>save_ok\<close> tells whether writing \<^verbatim>\<open>calibracao.txt\<close> succeeds; when it raises, the
  \<^verbatim>\<open>except\<close> clause returns \<^verbatim>\<open>None\<close>, after both attributes have been assigned.
  With \<^verbatim>\<open>reference_width_cm = 0\<close> the division raises \<^verbatim>\<open>ZeroDivisionError\<close>: the
  \<^verbatim>\<open>except\<close> clause returns \<^verbatim>\<open>None\<close> and neither attribute has been assigned.
\<close>

definition calibrate_with_reference ::
  "BoxMeasurementSystem \<Rightarrow> box \<Rightarrow> bool \<Rightarrow> box option \<times> BoxMeasurementSystem" where
  "calibrate_with_reference s b save_ok =
     (case b of (p_tl, p_tr, p_br, p_bl) \<Rightarrow>
        (let width_pixels = euclidean p_tl p_tr;
             height_pixels = euclidean p_tr p_br;
             min_dimension = min width_pixels height_pixels
         in if reference_width_cm s = 0 then (None, s)
            else (let s' = s\<lparr>pixels_per_cm := Some (min_dimension / reference_width_cm s - 28),
                                calibrated := True\<rparr>
                  in if save_ok then (Some b, s') else (None, s'))))"

text \<open>\<^verbatim>\<open>measure_box\<close>: \<^verbatim>\<open>(None, None)\<close> is \<open>None\<close>. Comparing \<^verbatim>\<open>None > 0\<close> raises
  \<^verbatim>\<open>TypeError\<close>, which the \<^verbatim>\<open>except\<close> clause turns into \<^verbatim>\<open>(None, None)\<close>.\<close>

definition measure_box :: "BoxMeasurementSystem \<Rightarrow> box \<Rightarrow> (real \<times> real) option" where
  "measure_box s b =
     (case b of (p_tl, p_tr, p_br, p_bl) \<Rightarrow>
        (let width_pixels = euclidean p_tl p_tr;
             height_pixels = euclidean p_tr p_br;
             width_px = min width_pixels height_pixels;
             height_px = max width_pixels height_pixels
         in if calibrated s
            then (case pixels_per_cm s of
                    None \<Rightarrow> None
                  | Some ppc \<Rightarrow>
                      if ppc > 0 then Some (width_px / ppc, height_px / ppc) else None)
            else None))"

text \<open>The loop of \<^verbatim>\<open>classify_box\<close> over \<^verbatim>\<open>self.box_types.items()\<close>.\<close>

fun classify_loop :: "real \<Rightarrow> (string \<times> real \<times> real) list \<Rightarrow> real \<Rightarrow> real \<Rightarrow> string \<times> bool" where
  "classify_loop tol [] width_cm height_cm = (''UNKNOWN'', False)"
| "classify_loop tol ((box_type, (ref_width, ref_height)) # rest) width_cm height_cm =
     (let width_match = \<bar>width_cm - ref_width\<bar> \<le> tol;
          height_match = \<bar>height_cm - ref_height\<bar> \<le> tol;
          width_match_swapped = \<bar>width_cm - ref_height\<bar> \<le> tol;
          height_match_swapped = \<bar>height_cm - ref_width\<bar> \<le> tol
      in if (width_match \<and> height_match) \<or> (width_match_swapped \<and> height_match_swapped)
         then (box_type, True)
         else classify_loop tol rest width_cm height_cm)"

definition classify_box ::
  "BoxMeasurementSystem \<Rightarrow> real option \<Rightarrow> real option \<Rightarrow> string \<times> bool" where
  "classify_box s width_cm height_cm =
     (case (width_cm, height_cm) of
        (Some w, Some h) \<Rightarrow> classify_loop (tolerance_cm s) (box_types s) w h
      | _ \<Rightarrow> (''UNKNOWN'', False))"

subsection \<open>Error flags and the status emission\<close>

text \<open>What one frame brings from outside: whether the capture device is open, the clock
  values read by \<^verbatim>\<open>check_operational_timeout\<close> and by \<^verbatim>\<open>send_to_ARD\<close>, the ordered
  boxes \<^verbatim>\<open>find_aligned_rectangles\<close> returns (accepted, left to right), and whether the
  calibration file can be written.\<close>

record frame_env =
  camera_opened :: bool
  clock_check :: real
  aligned_boxes :: "box list"
  save_ok :: bool
  clock_send :: real

definition check_system_errors ::
  "BoxMeasurementSystem \<Rightarrow> frame_env \<Rightarrow> bool \<times> BoxMeasurementSystem" where
  "check_system_errors s env =
     (let e1 = (system_errors s)\<lparr>camera_error := \<not> camera_opened env\<rparr>;
          e2 = (if \<not> ARD_check_operational_timeout (clock_check env) (ARD_output s)
                then e1\<lparr>timeout_error := True\<rparr>
                else e1\<lparr>timeout_error := False\<rparr>);
          e3 = (if frames_processed s > 100 \<and> valid_boxes s = 0
                then e2\<lparr>processing_error := True\<rparr>
                else e2\<lparr>processing_error := False\<rparr>)
      in (any_error e3, s\<lparr>system_errors := e3\<rparr>))"

definition update_output_map ::
  "BoxMeasurementSystem \<Rightarrow> frame_env \<Rightarrow> ARD_output_info \<times> BoxMeasurementSystem" where
  "update_output_map s env =
     (let camera_operational = camera_opened env;
          m1 = ARD_update_camera_status camera_operational (ARD_output s);
          has_error = any_error (system_errors s);
          m2 = ARD_update_error_status has_error m1;
          box_detected = (length (box_type_history s) > 0 \<and> last_stable_type s \<noteq> None);
          m3 = ARD_update_box_detected box_detected m2;
          m4 = (case last_stable_type s of
                  Some t \<Rightarrow>
                    if box_detected \<and> t \<in> set (map fst (box_types s))
                    then ARD_update_box_type t m3
                    else ARD_update_box_type ''UNKNOWN'' m3
                | None \<Rightarrow> ARD_update_box_type ''UNKNOWN'' m3);
          (info, m5) = ARD_send_to_ARD (clock_send env) m4
      in (info, s\<lparr>ARD_output := m5\<rparr>))"

subsection \<open>Stabilization\<close>

text \<open>\<^verbatim>\<open>collections.Counter\<close> of a list: the counts, keyed in order of first occurrence.\<close>

fun counter_add :: "'a \<Rightarrow> ('a \<times> nat) list \<Rightarrow> ('a \<times> nat) list" where
  "counter_add x [] = [(x, 1)]"
| "counter_add x ((k, n) # kvs) =
     (if k = x then (k, n + 1) # kvs else (k, n) # counter_add x kvs)"

definition Counter :: "'a list \<Rightarrow> ('a \<times> nat) list" where
  "Counter xs = foldl (\<lambda>c x. counter_add x c) [] xs"

text \<open>\<^verbatim>\<open>max(items, key=count)\<close>: the first item with the greatest count.\<close>

fun first_max :: "'a \<times> nat \<Rightarrow> ('a \<times> nat) list \<Rightarrow> 'a \<times> nat" where
  "first_max best [] = best"
| "first_max best (kv # kvs) = first_max (if snd kv > snd best then kv else best) kvs"

text \<open>\<^verbatim>\<open>most_common(1)\<close>: a list of at most one item.\<close>

definition most_common_1 :: "('a \<times> nat) list \<Rightarrow> ('a \<times> nat) list" where
  "most_common_1 c = (case c of [] \<Rightarrow> [] | kv # kvs \<Rightarrow> [first_max kv kvs])"

text \<open>The block of \<^verbatim>\<open>process_frame\<close> that determines the stable type.\<close>

definition stabilize :: "BoxMeasurementSystem \<Rightarrow> string list \<Rightarrow> BoxMeasurementSystem" where
  "stabilize s current_detections =
     (if current_detections \<noteq> []
      then (case most_common_1 (Counter current_detections) of
              [] \<Rightarrow> s
            | (current_type, n) # _ \<Rightarrow>
                (let s1 = (if Some current_type = last_stable_type s
                           then s\<lparr>stable_detection_count := stable_detection_count s + 1\<rparr>
                           else s\<lparr>stable_detection_count := 1,
                                  last_stable_type := Some current_type\<rparr>)
                 in if stable_detection_count s1 \<ge> 3
                    then s1\<lparr>last_stable_type := Some current_type\<rparr>
                    else s1))
      else s\<lparr>stable_detection_count := 0, last_stable_type := None\<rparr>)"

text \<open>The majority type of a frame: the label \<^verbatim>\<open>most_common(1)\<close> yields for its valid
  classifications, if there is any.\<close>

definition majority_type :: "string list \<Rightarrow> string option" where
  "majority_type current_detections =
     (case most_common_1 (Counter current_detections) of
        [] \<Rightarrow> None
      | (current_type, n) # _ \<Rightarrow> Some current_type)"

subsection \<open>process\_frame\<close>

text \<open>One pass of the loop over the boxes after the first: the system, the list
  \<^verbatim>\<open>current_detections\<close> and the counter \<^verbatim>\<open>valid_boxes_count\<close>.\<close>

definition classify_step ::
  "BoxMeasurementSystem \<times> string list \<times> nat \<Rightarrow> box \<Rightarrow> BoxMeasurementSystem \<times> string list \<times> nat" where
  "classify_step st b =
     (case st of (s, current_detections, valid_boxes_count) \<Rightarrow>
        if \<not> calibrated s then st
        else (case measure_box s b of
                None \<Rightarrow> st
              | Some (width_cm, height_cm) \<Rightarrow>
                  (case classify_box s (Some width_cm) (Some height_cm) of
                     (box_type, is_valid) \<Rightarrow>
                       if is_valid
                       then (s\<lparr>box_type_history := deque_append 20 (box_type_history s) box_type\<rparr>,
                             current_detections @ [box_type], valid_boxes_count + 1)
                       else st)))"

text \<open>
  The first part of \<^verbatim>\<open>process_frame\<close>: the frame counter, the error check, the
  reference rectangle and the loop over the other boxes. The second call of
  \<^verbatim>\<open>is_aligned_rectangle\<close> on the first contour repeats the call that accepted it, so it
  accepts it again.
\<close>

definition frame_classification ::
  "BoxMeasurementSystem \<Rightarrow> frame_env \<Rightarrow> BoxMeasurementSystem \<times> string list \<times> nat" where
  "frame_classification s env =
     (let s1 = s\<lparr>frames_processed := frames_processed s + 1\<rparr>;
          s2 = snd (check_system_errors s1 env);
          boxes = aligned_boxes env;
          s3 = (if length boxes > 0 \<and> \<not> calibrated s2
                then snd (calibrate_with_reference s2 (hd boxes) (save_ok env))
                else s2)
      in foldl classify_step (s3, [], 0) (drop 1 boxes))"

definition process_frame :: "BoxMeasurementSystem \<Rightarrow> frame_env \<Rightarrow> BoxMeasurementSystem" where
  "process_frame s env =
     (case frame_classification s env of (s4, current_detections, valid_boxes_count) \<Rightarrow>
        (let n = length (aligned_boxes env);
             s5 = s4\<lparr>total_boxes := (if n > 1 then n - 1 else 0),
                     valid_boxes := valid_boxes_count\<rparr>;
             s6 = stabilize s5 current_detections
         in snd (update_output_map s6 env)))"

text \<open>The valid classifications of the frame processed next, and its majority type.\<close>

definition frame_detections :: "BoxMeasurementSystem \<Rightarrow> frame_env \<Rightarrow> string list" where
  "frame_detections s env = fst (snd (frame_classification s env))"

definition run_frames :: "BoxMeasurementSystem \<Rightarrow> frame_env list \<Rightarrow> BoxMeasurementSystem" where
  "run_frames s envs = foldl process_frame s envs"

fun frame_majorities :: "BoxMeasurementSystem \<Rightarrow> frame_env list \<Rightarrow> string option list" where
  "frame_majorities s [] = []"
| "frame_majorities s (env # envs) =
     majority_type (frame_detections s env) # frame_majorities (process_frame s env) envs"

subsection \<open>The session: start-up and the key loop of run\<close>

text \<open>A line of \<^verbatim>\<open>calibracao.txt\<close> as the loader sees it: it holds \<^verbatim>\<open>PIXELS_PER_CM\<close> and
  a number after the \<^verbatim>\<open>=\<close>, it holds the key and \<^verbatim>\<open>float\<close> raises, or it does not hold
  the key.\<close>

datatype cal_line = Pixels_line real | Bad_pixels_line | Other_line

fun load_lines :: "cal_line list \<Rightarrow> BoxMeasurementSystem \<Rightarrow> BoxMeasurementSystem" where
  "load_lines [] s = s"
| "load_lines (Other_line # ls) s = load_lines ls s"
| "load_lines (Pixels_line v # ls) s =
     load_lines ls (s\<lparr>pixels_per_cm := Some v, calibrated := True\<rparr>)"
| "load_lines (Bad_pixels_line # ls) s = s"

text \<open>The \<^verbatim>\<open>try\<close> block at the start of \<^verbatim>\<open>run\<close>; \<open>None\<close> is a file that cannot be opened.\<close>

definition load_calibration ::
  "cal_line list option \<Rightarrow> BoxMeasurementSystem \<Rightarrow> BoxMeasurementSystem" where
  "load_calibration file s = (case file of None \<Rightarrow> s | Some ls \<Rightarrow> load_lines ls s)"

text \<open>\<^verbatim>\<open>main\<close> constructs the system, stores \<^verbatim>\<open>--reference\<close> in both reference sizes, and
  \<^verbatim>\<open>run\<close> loads the calibration file.\<close>

definition startup :: "real \<Rightarrow> real \<Rightarrow> cal_line list option \<Rightarrow> BoxMeasurementSystem" where
  "startup now reference file =
     load_calibration file
       ((BMS_init now)\<lparr>reference_width_cm := reference, reference_height_cm := reference\<rparr>)"

text \<open>What the loop of \<^verbatim>\<open>run\<close> does to the system: a frame is processed, the status is
  emitted again when the interval has passed, or a key is handled.\<close>

datatype event = Frame frame_env | Status_update frame_env | Key_c | Key_plus | Key_minus

fun run_event :: "BoxMeasurementSystem \<Rightarrow> event \<Rightarrow> BoxMeasurementSystem" where
  "run_event s (Frame env) = process_frame s env"
| "run_event s (Status_update env) = snd (update_output_map s env)"
| "run_event s Key_c = s\<lparr>calibrated := False\<rparr>"
| "run_event s Key_plus = s\<lparr>max_angle_deviation := min 45 (max_angle_deviation s + 1)\<rparr>"
| "run_event s Key_minus = s\<lparr>max_angle_deviation := max 1 (max_angle_deviation s - 1)\<rparr>"

definition run_events :: "BoxMeasurementSystem \<Rightarrow> event list \<Rightarrow> BoxMeasurementSystem" where
  "run_events s evs = foldl run_event s evs"

subsection \<open>Concrete inputs\<close>

text \<open>An axis-parallel box with its top-left corner at \<open>(x, 0)\<close>, \<open>w\<close> pixels wide and
  \<open>h\<close> pixels high.\<close>

definition rect :: "real \<Rightarrow> real \<Rightarrow> real \<Rightarrow> box" where
  "rect x w h = ((x, 0), (x + w, 0), (x + w, h), (x, h))"

text \<open>A frame with the given boxes, an open camera, a writable calibration file and a
  clock that stands at 0.\<close>

definition frame_with :: "box list \<Rightarrow> frame_env" where
  "frame_with bs =
     \<lparr>camera_opened = True, clock_check = 0, aligned_boxes = bs, save_ok = True,
      clock_send = 0\<rparr>"

text \<open>The four update calls of \<^verbatim>\<open>update_output_map\<close>, as a call sequence.\<close>

definition status_calls :: "bool \<Rightarrow> bool \<Rightarrow> bool \<Rightarrow> string \<Rightarrow> update_call list" where
  "status_calls c e d bt = [Camera_status c, Error_status e, Box_detected d, Box_type bt]"

subsection \<open>Auxiliary notions for the statements\<close>

text \<open>What one frame does to the pair (\<^verbatim>\<open>last_stable_type\<close>, \<^verbatim>\<open>stable_detection_count\<close>),
  as a function of the frame's majority type.\<close>

definition tracker_step :: "string option \<times> nat \<Rightarrow> string option \<Rightarrow> string option \<times> nat" where
  "tracker_step st m =
     (case m of
        None \<Rightarrow> (None, 0)
      | Some t \<Rightarrow> (Some t, if Some t = fst st then snd st + 1 else 1))"

text \<open>The value \<^verbatim>\<open>pixels_per_cm\<close> holds after a frame: the calibration from the first box
  when the system was not calibrated, there is a box and the reference width is not 0;
  the old value otherwise.\<close>

definition cal_value :: "BoxMeasurementSystem \<Rightarrow> frame_env \<Rightarrow> real option" where
  "cal_value s env =
     (if aligned_boxes env \<noteq> [] \<and> \<not> calibrated s \<and> reference_width_cm s \<noteq> 0
      then Some (min (euclidean (corner (hd (aligned_boxes env)) 0) (corner (hd (aligned_boxes env)) 1))
                     (euclidean (corner (hd (aligned_boxes env)) 1) (corner (hd (aligned_boxes env)) 2))
                 / reference_width_cm s - 28)
      else pixels_per_cm s)"

text \<open>A calibrated system holds a number in \<^verbatim>\<open>pixels_per_cm\<close>.\<close>

definition cal_inv :: "BoxMeasurementSystem \<Rightarrow> bool" where
  "cal_inv s = (\<not> calibrated s \<or> pixels_per_cm s \<noteq> None)"

text \<open>A session that starts from a calibration file holding 1 pixel per cm, frames that
  show the reference and one box of 10 by 20 cm or of 20 by 20 cm, and a frame without
  any rectangle.\<close>

definition loaded_system :: BoxMeasurementSystem where
  "loaded_system = startup 0 1 (Some [Pixels_line 1])"

definition frame_10x20 :: frame_env where
  "frame_10x20 = frame_with [rect 0 1 1, rect 100 10 20]"

definition frame_20x20 :: frame_env where
  "frame_20x20 = frame_with [rect 0 1 1, rect 100 20 20]"

definition empty_frame :: frame_env where
  "empty_frame = frame_with []"

text \<open>The configuration those frames are classified under.\<close>

definition ready :: "BoxMeasurementSystem \<Rightarrow> bool" where
  "ready s =
     (calibrated s \<and> pixels_per_cm s = Some 1 \<and> tolerance_cm s = 3 \<and>
      box_types s = [(''10x20'', (10, 20)), (''20x20'', (20, 20)), (''30x50'', (30, 50))])"

section \<open>Properties\<close>

subsection \<open>Reserved bits of the packed byte\<close>

lemma ARD_call_reserved:
  "ard_output_byte (ARD_call m c) AND 0b11100000 = ard_output_byte m AND 0b11100000"
  by (cases c)
     (simp_all add: ARD_update_camera_status_def ARD_update_error_status_def
        ARD_update_box_detected_def ARD_update_box_type_def Let_def
        bit.conj_disj_distrib2 and.assoc)

lemma ARD_calls_reserved:
  "ard_output_byte (ARD_calls m cs) AND 0b11100000 = ard_output_byte m AND 0b11100000"
  unfolding ARD_calls_def
  by (induction cs arbitrary: m) (simp_all add: ARD_call_reserved)

lemma mask_bit5: "bit (0b11100000::int) 5"
  by (simp add: bit_iff_odd)

lemma mask_bit6: "bit (0b11100000::int) 6"
  by (simp add: bit_iff_odd)

lemma mask_bit7: "bit (0b11100000::int) 7"
  by (simp add: bit_iff_odd)

lemma reserved_bits:
  assumes "(b::int) AND 0b11100000 = 0"
  shows "\<not> bit b 5 \<and> \<not> bit b 6 \<and> \<not> bit b 7"
proof -
  have "\<not> bit (b AND 0b11100000) n" for n
    unfolding assms by simp
  then have "\<not> (bit b n \<and> bit (0b11100000::int) n)" for n
    unfolding bit_and_iff .
  from this[of 5] this[of 6] this[of 7] mask_bit5 mask_bit6 mask_bit7
  show ?thesis by blast
qed

text \<open>
  Claim C9. Starting from a freshly constructed \<^verbatim>\<open>ARDOutputMap\<close>, after any sequence of
  calls of \<^verbatim>\<open>update_camera_status\<close>, \<^verbatim>\<open>update_error_status\<close>, \<^verbatim>\<open>update_box_detected\<close> and
  \<^verbatim>\<open>update_box_type\<close>, with any arguments, bits 5, 6 and 7 of \<^verbatim>\<open>output_byte\<close> are zero.
\<close>

theorem ARD_reserved_bits_zero:
  "\<not> bit (ard_output_byte (ARD_calls (ARD_init now) cs)) 5 \<and>
   \<not> bit (ard_output_byte (ARD_calls (ARD_init now) cs)) 6 \<and>
   \<not> bit (ard_output_byte (ARD_calls (ARD_init now) cs)) 7"
  by (rule reserved_bits) (simp add: ARD_calls_reserved ARD_init_def)

subsection \<open>The two packed encoders agree\<close>

lemma PLC_ARD_call:
  "plc_output_byte p = ard_output_byte a \<Longrightarrow>
   plc_output_byte (PLC_call p c) = ard_output_byte (ARD_call a c)"
  by (cases c)
     (simp_all add: ARD_update_camera_status_def ARD_update_error_status_def
        ARD_update_box_detected_def ARD_update_box_type_def
        PLC_update_camera_status_def PLC_update_error_status_def
        PLC_update_box_detected_def PLC_update_box_type_def Let_def)

lemma PLC_ARD_calls:
  "plc_output_byte p = ard_output_byte a \<Longrightarrow>
   plc_output_byte (PLC_calls p cs) = ard_output_byte (ARD_calls a cs)"
  unfolding ARD_calls_def PLC_calls_def
proof (induction cs arbitrary: p a)
  case Nil
  then show ?case by simp
next
  case (Cons c cs)
  then show ?case using PLC_ARD_call [of p a c] by simp
qed

lemma PLC_ARD_info:
  "plc_output_byte p = ard_output_byte a \<Longrightarrow>
   plc_camera (PLC_get_output_string p) = ard_camera (ARD_get_output_string a) \<and>
   plc_error (PLC_get_output_string p) = ard_error (ARD_get_output_string a) \<and>
   plc_detection (PLC_get_output_string p) = ard_detection (ARD_get_output_string a) \<and>
   plc_type (PLC_get_output_string p) = ard_type (ARD_get_output_string a)"
  by (simp add: PLC_get_output_string_def ARD_get_output_string_def Let_def)

text \<open>
  Claim C10. \<^verbatim>\<open>PLCOutputMap\<close> and \<^verbatim>\<open>ARDOutputMap\<close> are equivalent encoders: the same
  sequence of update calls, applied to both from their initial states, leaves equal
  \<^verbatim>\<open>output_byte\<close> values, and \<^verbatim>\<open>get_output_string\<close> returns equal camera, error,
  detection and type fields.
\<close>

theorem PLC_ARD_equivalent:
  "plc_output_byte (PLC_calls (PLC_init t) cs) = ard_output_byte (ARD_calls (ARD_init t') cs) \<and>
   plc_camera (PLC_get_output_string (PLC_calls (PLC_init t) cs)) =
     ard_camera (ARD_get_output_string (ARD_calls (ARD_init t') cs)) \<and>
   plc_error (PLC_get_output_string (PLC_calls (PLC_init t) cs)) =
     ard_error (ARD_get_output_string (ARD_calls (ARD_init t') cs)) \<and>
   plc_detection (PLC_get_output_string (PLC_calls (PLC_init t) cs)) =
     ard_detection (ARD_get_output_string (ARD_calls (ARD_init t') cs)) \<and>
   plc_type (PLC_get_output_string (PLC_calls (PLC_init t) cs)) =
     ard_type (ARD_get_output_string (ARD_calls (ARD_init t') cs))"
proof -
  have init: "plc_output_byte (PLC_init t) = ard_output_byte (ARD_init t')"
    by (simp add: PLC_init_def ARD_init_def)
  have byte: "plc_output_byte (PLC_calls (PLC_init t) cs) =
      ard_output_byte (ARD_calls (ARD_init t') cs)"
    by (rule PLC_ARD_calls [OF init])
  from byte PLC_ARD_info [OF byte] show ?thesis by blast
qed


subsection \<open>The angle gate\<close>

lemma angle_rejected_result:
  "angle_rejected s (normalize_angle raw) \<Longrightarrow>
   is_aligned_rectangle s raw b = (False, None, None)"
  by (simp add: is_aligned_rectangle_def)

subsection \<open>Classification is symmetric\<close>

lemma classify_loop_swap: "classify_loop tol cat w h = classify_loop tol cat h w"
  by (induction cat) (auto simp add: Let_def)

text \<open>
  Claim C6. For every pair of dimensions, \<^verbatim>\<open>classify_box(w, h)\<close> and
  \<^verbatim>\<open>classify_box(h, w)\<close> return the same label and the same validity flag.
\<close>

theorem classify_box_swap: "classify_box s w h = classify_box s h w"
  by (cases w; cases h) (simp_all add: classify_box_def classify_loop_swap)

subsection \<open>Calibration\<close>

lemma euclidean_horizontal: "euclidean (x1, y) (x2, y) = \<bar>x1 - x2\<bar>"
  by (simp add: euclidean_def)

lemma euclidean_vertical: "euclidean (x, y1) (x, y2) = \<bar>y1 - y2\<bar>"
  by (simp add: euclidean_def)

text \<open>
  Claim C7. With a reference width other than 0 (the division raises at 0), calibration
  takes the Euclidean distances between the corners top-left and top-right and between
  top-right and bottom-right, takes the smaller one, stores
  \<open>min_edge / reference - 28\<close> in \<^verbatim>\<open>pixels_per_cm\<close> and sets \<^verbatim>\<open>calibrated\<close>; with
  edges of 140 and 142 pixels and a reference of 2.0 cm the result is 42.0.
\<close>

theorem calibrate_formula:
  "(reference_width_cm s \<noteq> 0 \<longrightarrow>
      pixels_per_cm (snd (calibrate_with_reference s (a, b, c, d) ok)) =
        Some (min (sqrt ((fst a - fst b)\<^sup>2 + (snd a - snd b)\<^sup>2))
                  (sqrt ((fst b - fst c)\<^sup>2 + (snd b - snd c)\<^sup>2)) / reference_width_cm s - 28) \<and>
      calibrated (snd (calibrate_with_reference s (a, b, c, d) ok))) \<and>
   (euclidean a b = 140 \<longrightarrow> euclidean b c = 142 \<longrightarrow> reference_width_cm s = 2.0 \<longrightarrow>
      pixels_per_cm (snd (calibrate_with_reference s (a, b, c, d) ok)) = Some 42.0 \<and>
      calibrated (snd (calibrate_with_reference s (a, b, c, d) ok)))"
  by (simp add: calibrate_with_reference_def Let_def euclidean_def)

theorem calibrate_formula_witness:
  "pixels_per_cm
     (snd (calibrate_with_reference ((BMS_init 0)\<lparr>reference_width_cm := 2.0\<rparr>)
        ((0, 0), (140, 0), (140, 142), (0, 142)) True)) = Some 42.0 \<and>
   calibrated
     (snd (calibrate_with_reference ((BMS_init 0)\<lparr>reference_width_cm := 2.0\<rparr>)
        ((0, 0), (140, 0), (140, 142), (0, 142)) True))"
  using calibrate_formula [of "(BMS_init 0)\<lparr>reference_width_cm := 2.0\<rparr>"
      "(0, 0)" "(140, 0)" "(140, 142)" "(0, 142)" True]
  by (simp add: euclidean_horizontal euclidean_vertical)

subsection \<open>Degenerate geometry\<close>

lemma acos_clamped: "acos (max (-1) (min 1 x)) = Inr (arccos (max (-1) (min 1 x)))"
  by (simp add: acos_def)

lemma corner_angle_not_raised: "corner_angle b i \<noteq> Corner_raised e"
  by (simp add: corner_angle_def Let_def acos_clamped)

lemma interior_angles_not_raised: "interior_angles b ixs acc \<noteq> Raised e"
  by (induction ixs arbitrary: acc)
     (auto simp add: corner_angle_not_raised split: corner_result.splits)

lemma interior_angles_zero_norm:
  "i \<in> set ixs \<Longrightarrow> corner_angle b i = Corner_zero_norm \<Longrightarrow>
   interior_angles b ixs acc = Zero_norm"
  by (induction ixs arbitrary: acc)
     (auto simp add: corner_angle_not_raised split: corner_result.splits)

lemma coinciding_corners_zero_norm:
  "corner b i = corner b ((i + 1) mod 4) \<Longrightarrow> corner_angle b i = Corner_zero_norm"
  by (simp add: corner_angle_def Let_def vec_sub_def norm2_def)

text \<open>
  Claim C8. The rectangle check never ends in a fault: the value handed to
  \<^verbatim>\<open>math.acos\<close> is clamped to \<open>[-1, 1]\<close>, so no pass of the corner loop and no run of it
  raises, and a box with two coinciding consecutive corners is turned away with
  \<^verbatim>\<open>(False, None, None)\<close>.
\<close>

theorem degenerate_rejected:
  "corner_angle b j \<noteq> Corner_raised e \<and>
   interior_angles b [0, 1, 2, 3] [] \<noteq> Raised e \<and>
   (i < 4 \<longrightarrow> corner b i = corner b ((i + 1) mod 4) \<longrightarrow>
      is_aligned_rectangle s raw b = (False, None, None))"
proof -
  have "is_aligned_rectangle s raw b = (False, None, None)"
    if i: "i < 4" and c: "corner b i = corner b ((i + 1) mod 4)"
  proof -
    have "i \<in> set [0, 1, 2, 3]" using i by auto
    then have "interior_angles b [0, 1, 2, 3] [] = Zero_norm"
      using coinciding_corners_zero_norm [OF c] by (rule interior_angles_zero_norm)
    then show ?thesis by (simp add: is_aligned_rectangle_def Let_def)
  qed
  then show ?thesis
    using corner_angle_not_raised interior_angles_not_raised by blast
qed

theorem degenerate_rejected_witness:
  "is_aligned_rectangle (BMS_init 0) 0 ((0, 0), (0, 0), (5, 5), (0, 5)) = (False, None, None)"
  using degenerate_rejected [of "((0, 0), (0, 0), (5, 5), (0, 5))" 0 ValueError 0 "BMS_init 0" 0]
  by simp

subsection \<open>The two wire forms\<close>

lemma or_absorb: "(a::int) AND b = a \<Longrightarrow> (x AND a) OR b = b"
proof -
  assume h: "a AND b = a"
  have "(x AND a) OR b = ((x AND a) AND b) OR b"
    by (simp add: and.assoc h)
  also have "\<dots> = b"
    by (rule bit_eqI) (auto simp add: bit_and_iff bit_or_iff)
  finally show ?thesis .
qed

lemma status_calls_byte:
  "ard_output_byte (ARD_calls m (status_calls c e d bt)) AND 0b00011111 =
     (if c then 1 else 0) OR (if e then 2 else 0) OR (if d then 4 else 0) OR
     (if bt = ''10x20'' then 8 else if bt = ''20x20'' then 16
      else if bt = ''30x50'' then 24 else 0)"
  by (simp add: status_calls_def ARD_calls_def ARD_update_camera_status_def
        ARD_update_error_status_def ARD_update_box_detected_def ARD_update_box_type_def
        Let_def bit.conj_disj_distrib2 and.assoc or.assoc or_absorb)

lemma decode_packed_low:
  "decode_packed m =
     ((ard_output_byte m AND 31) AND 1 \<noteq> 0, (ard_output_byte m AND 31) AND 2 \<noteq> 0,
      (ard_output_byte m AND 31) AND 4 \<noteq> 0,
      (let tb = drop_bit 3 ((ard_output_byte m AND 31) AND 24)
       in if tb = 1 then ''10x20'' else if tb = 2 then ''20x20''
          else if tb = 3 then ''30x50'' else ''NONE''))"
  by (simp add: decode_packed_def ARD_get_output_string_def Let_def and.assoc)

lemma decode_packed_status_calls:
  "decode_packed (ARD_calls m (status_calls c e d bt)) =
     (c, e, d, if bt = ''10x20'' \<or> bt = ''20x20'' \<or> bt = ''30x50'' then bt else ''NONE'')"
  unfolding decode_packed_low using status_calls_byte [of m c e d bt]
  by (cases c; cases e; cases d) simp_all

lemma type_of_code_values:
  "type_of_code 0 = Some ''NONE''" "type_of_code 1 = Some ''10x20''"
  "type_of_code 2 = Some ''20x20''" "type_of_code 4 = Some ''30x50''"
  "type_of_code 7 = Some ''UNKNOWN''"
  by (simp_all add: type_of_code_def type_codes_def)

lemma decode_line_command_line:
  "decode_line (command_line c e d bt) =
     Some (c, e, d,
           if bt = ''10x20'' \<or> bt = ''20x20'' \<or> bt = ''30x50'' \<or> bt = ''NONE'' then bt
           else ''UNKNOWN'')"
  by (cases c; cases e; cases d)
     (simp_all add: decode_line_def command_line_def dict_get_def type_codes_def str_bit_def
        int_of_bool_def strip_def is_space_def newline_def parse_bit_def type_of_code_values
        Let_def)

text \<open>
  Claim C1, as amended. For every camera, error and detected status, the packed byte
  (read back by \<^verbatim>\<open>get_output_string\<close>) and the line of \<^verbatim>\<open>update_status\<close> (read back
  through the table \<^verbatim>\<open>type_codes\<close>) give the same camera, error and detected fields for
  every box type, and the same type for the box types \<^verbatim>\<open>10x20\<close>, \<^verbatim>\<open>20x20\<close>, \<^verbatim>\<open>30x50\<close>
  and \<^verbatim>\<open>NONE\<close>. For \<^verbatim>\<open>UNKNOWN\<close>, and for any other label, the packed byte reads back as
  \<^verbatim>\<open>NONE\<close> and the line as \<^verbatim>\<open>UNKNOWN\<close>.
\<close>

theorem wire_forms_decode:
  "(bt \<in> set [''10x20'', ''20x20'', ''30x50'', ''NONE''] \<longrightarrow>
      decode_line (command_line c e d bt) =
        Some (decode_packed (ARD_calls m (status_calls c e d bt))) \<and>
      decode_packed (ARD_calls m (status_calls c e d bt)) = (c, e, d, bt)) \<and>
   (bt \<notin> set [''10x20'', ''20x20'', ''30x50'', ''NONE''] \<longrightarrow>
      decode_packed (ARD_calls m (status_calls c e d bt)) = (c, e, d, ''NONE'') \<and>
      decode_line (command_line c e d bt) = Some (c, e, d, ''UNKNOWN''))"
  by (auto simp add: decode_packed_status_calls decode_line_command_line)

theorem wire_forms_decode_witness:
  "decode_line (command_line True False True ''20x20'') =
     Some (decode_packed (ARD_calls (ARD_init 0) (status_calls True False True ''20x20''))) \<and>
   decode_packed (ARD_calls (ARD_init 0) (status_calls True False True ''20x20'')) =
     (True, False, True, ''20x20'') \<and>
   decode_packed (ARD_calls (ARD_init 0) (status_calls True True False ''BOX'')) =
     (True, True, False, ''NONE'') \<and>
   decode_line (command_line True True False ''BOX'') = Some (True, True, False, ''UNKNOWN'')"
  using wire_forms_decode [of "''20x20''" True False True "ARD_init 0"]
    wire_forms_decode [of "''BOX''" True True False "ARD_init 0"]
  by simp

text \<open>The claim as stated fails for the box type \<^verbatim>\<open>UNKNOWN\<close>: the packed byte carries
  type bits 00 and reads back as \<^verbatim>\<open>NONE\<close>, the line carries the type bits 1:1:1.\<close>

theorem wire_forms_UNKNOWN_counterexample:
  "decode_packed (ARD_calls (ARD_init 0) (status_calls True False False ''UNKNOWN'')) =
     (True, False, False, ''NONE'') \<and>
   command_line True False False ''UNKNOWN'' = ''1:0:0:1:1:1'' @ [newline] \<and>
   decode_line (command_line True False False ''UNKNOWN'') =
     Some (True, False, False, ''UNKNOWN'')"
  by (simp add: decode_packed_status_calls decode_line_command_line)
     (simp add: command_line_def dict_get_def type_codes_def str_bit_def int_of_bool_def)

subsection \<open>The shape of one frame\<close>

lemma classify_step_shape:
  "\<exists>h ds n. classify_step (s, d, c) b = (s\<lparr>box_type_history := h\<rparr>, ds, n) \<and> n = (c + (length ds - length d)) \<and> length d \<le> length ds"
proof (cases "classify_step (s, d, c) b = (s, d, c)")
  case True
  then have "classify_step (s, d, c) b = (s\<lparr>box_type_history := box_type_history s\<rparr>, d, c)" by simp
  then show ?thesis by fastforce
next
  case False
  then show ?thesis
    by (auto simp add: classify_step_def split: option.splits prod.splits if_splits)
qed

lemma classify_fold_shape:
  "\<exists>h ds n. foldl classify_step (s, d, c) bs = (s\<lparr>box_type_history := h\<rparr>, ds, n) \<and> n = (c + (length ds - length d)) \<and> length d \<le> length ds"
proof (induction bs arbitrary: s d c)
  case Nil
  have "foldl classify_step (s, d, c) [] = (s\<lparr>box_type_history := box_type_history s\<rparr>, d, c)" by simp
  then show ?case by fastforce
next
  case (Cons b bs)
  obtain h1 d1 n1 where 1: "classify_step (s, d, c) b = (s\<lparr>box_type_history := h1\<rparr>, d1, n1)"
    and n1: "n1 = c + (length d1 - length d)" and l1: "length d \<le> length d1"
    using classify_step_shape by blast
  obtain h2 d2 n2 where 2: "foldl classify_step (s\<lparr>box_type_history := h1\<rparr>, d1, n1) bs = (s\<lparr>box_type_history := h1\<rparr>\<lparr>box_type_history := h2\<rparr>, d2, n2)"
    and n2: "n2 = n1 + (length d2 - length d1)" and l2: "length d1 \<le> length d2"
    using Cons.IH by blast
  have "foldl classify_step (s, d, c) (b # bs) = (s\<lparr>box_type_history := h2\<rparr>, d2, n2)"
    using 1 2 by simp
  moreover have "n2 = c + (length d2 - length d)" using n1 n2 l1 l2 by arith
  moreover have "length d \<le> length d2" using l1 l2 by arith
  ultimately show ?case by blast
qed

lemma check_shape:
  "\<exists>e. snd (check_system_errors s env) = s\<lparr>system_errors := e\<rparr> \<and>
       processing_error e = (frames_processed s > 100 \<and> valid_boxes s = 0)"
  by (rule exI [of _ "system_errors (snd (check_system_errors s env))"])
     (simp add: check_system_errors_def Let_def)

lemma calibrate_shape:
  "reference_width_cm s \<noteq> 0 \<Longrightarrow>
   snd (calibrate_with_reference s b ok) =
     s\<lparr>pixels_per_cm := Some (min (euclidean (corner b 0) (corner b 1))
                                 (euclidean (corner b 1) (corner b 2)) / reference_width_cm s - 28),
       calibrated := True\<rparr>"
  by (cases b) (simp add: calibrate_with_reference_def Let_def)

lemma calibrate_zero_reference:
  "reference_width_cm s = 0 \<Longrightarrow> calibrate_with_reference s b ok = (None, s)"
  by (cases b) (simp add: calibrate_with_reference_def Let_def)

lemma counter_add_nonempty: "counter_add x c \<noteq> []"
  by (cases c) (auto split: if_splits)

lemma Counter_fold_nonempty: "c \<noteq> [] \<or> xs \<noteq> [] \<Longrightarrow> foldl (\<lambda>c x. counter_add x c) c xs \<noteq> []"
  by (induction xs arbitrary: c) (auto simp add: counter_add_nonempty)

lemma majority_type_Nil: "majority_type [] = None"
  by (simp add: majority_type_def Counter_def most_common_1_def)

lemma majority_type_nonempty: "ds \<noteq> [] \<Longrightarrow> \<exists>t. majority_type ds = Some t"
  using Counter_fold_nonempty [of "[]" ds]
  by (auto simp add: majority_type_def Counter_def most_common_1_def split: list.splits prod.splits)

lemma stabilize_shape:
  "stabilize s ds = s\<lparr>stable_detection_count := snd (tracker_step (last_stable_type s, stable_detection_count s) (majority_type ds)),
                       last_stable_type := fst (tracker_step (last_stable_type s, stable_detection_count s) (majority_type ds))\<rparr>"
proof (cases "ds = []")
  case True
  then show ?thesis by (simp add: stabilize_def majority_type_Nil tracker_step_def)
next
  case False
  then obtain t where t: "majority_type ds = Some t" using majority_type_nonempty by blast
  then show ?thesis using False
    by (auto simp add: stabilize_def majority_type_def tracker_step_def Let_def split: list.splits prod.splits)
qed

lemma update_output_map_shape: "\<exists>m. snd (update_output_map s env) = s\<lparr>ARD_output := m\<rparr>"
  by (rule exI [of _ "ARD_output (snd (update_output_map s env))"])
     (simp add: update_output_map_def Let_def ARD_send_to_ARD_def split: option.splits prod.splits)

lemma frame_classification_shape:
  "\<exists>e h. frame_classification s env =
      (s\<lparr>frames_processed := frames_processed s + 1, system_errors := e,
         pixels_per_cm := cal_value s env, calibrated := (calibrated s \<or> (aligned_boxes env \<noteq> [] \<and> reference_width_cm s \<noteq> 0)),
         box_type_history := h\<rparr>, frame_detections s env, length (frame_detections s env)) \<and>
      processing_error e = (frames_processed s + 1 > 100 \<and> valid_boxes s = 0)"
proof -
  let ?s1 = "s\<lparr>frames_processed := frames_processed s + 1\<rparr>"
  obtain e where e: "snd (check_system_errors ?s1 env) = ?s1\<lparr>system_errors := e\<rparr>"
    and pe: "processing_error e = (frames_processed ?s1 > 100 \<and> valid_boxes ?s1 = 0)"
    using check_shape by blast
  let ?s2 = "?s1\<lparr>system_errors := e\<rparr>"
  let ?s3 = "if length (aligned_boxes env) > 0 \<and> \<not> calibrated ?s2
                then snd (calibrate_with_reference ?s2 (hd (aligned_boxes env)) (save_ok env))
                else ?s2"
  have s3: "?s3 = ?s2\<lparr>pixels_per_cm := cal_value s env, calibrated := (calibrated s \<or> (aligned_boxes env \<noteq> [] \<and> reference_width_cm s \<noteq> 0))\<rparr>"
    by (cases "reference_width_cm s = 0")
       (simp_all add: calibrate_shape calibrate_zero_reference cal_value_def)
  obtain h ds n where f: "foldl classify_step (?s3, [], 0) (drop 1 (aligned_boxes env)) = (?s3\<lparr>box_type_history := h\<rparr>, ds, n)"
    and n: "n = 0 + (length ds - length ([]::string list))"
    using classify_fold_shape [of ?s3 "[]" 0] by blast
  have fc: "frame_classification s env = (?s3\<lparr>box_type_history := h\<rparr>, ds, n)"
    unfolding frame_classification_def Let_def e using f by simp
  then have ds: "frame_detections s env = ds" by (simp add: frame_detections_def)
  have "frame_classification s env = (s\<lparr>frames_processed := frames_processed s + 1, system_errors := e,
         pixels_per_cm := cal_value s env, calibrated := (calibrated s \<or> (aligned_boxes env \<noteq> [] \<and> reference_width_cm s \<noteq> 0)),
         box_type_history := h\<rparr>, frame_detections s env, length (frame_detections s env))"
    unfolding fc ds s3 using n by simp
  then show ?thesis using pe by auto
qed

lemma process_frame_shape:
  "\<exists>e h t m. process_frame s env =
      s\<lparr>frames_processed := frames_processed s + 1, system_errors := e,
        pixels_per_cm := cal_value s env, calibrated := (calibrated s \<or> (aligned_boxes env \<noteq> [] \<and> reference_width_cm s \<noteq> 0)),
        box_type_history := h, total_boxes := t, valid_boxes := length (frame_detections s env),
        stable_detection_count := snd (tracker_step (last_stable_type s, stable_detection_count s) (majority_type (frame_detections s env))),
        last_stable_type := fst (tracker_step (last_stable_type s, stable_detection_count s) (majority_type (frame_detections s env))),
        ARD_output := m\<rparr> \<and>
      processing_error e = (frames_processed s + 1 > 100 \<and> valid_boxes s = 0)"
proof -
  obtain e h where fc: "frame_classification s env =
      (s\<lparr>frames_processed := frames_processed s + 1, system_errors := e,
         pixels_per_cm := cal_value s env, calibrated := (calibrated s \<or> (aligned_boxes env \<noteq> [] \<and> reference_width_cm s \<noteq> 0)),
         box_type_history := h\<rparr>, frame_detections s env, length (frame_detections s env))"
     and pe: "processing_error e = (frames_processed s + 1 > 100 \<and> valid_boxes s = 0)"
    using frame_classification_shape by blast
  let ?s6 = "stabilize (s\<lparr>frames_processed := frames_processed s + 1, system_errors := e,
         pixels_per_cm := cal_value s env, calibrated := (calibrated s \<or> (aligned_boxes env \<noteq> [] \<and> reference_width_cm s \<noteq> 0)),
         box_type_history := h, total_boxes := (if length (aligned_boxes env) > 1 then length (aligned_boxes env) - 1 else 0),
         valid_boxes := length (frame_detections s env)\<rparr>) (frame_detections s env)"
  obtain m where m: "snd (update_output_map ?s6 env) = ?s6\<lparr>ARD_output := m\<rparr>"
    using update_output_map_shape by blast
  have "process_frame s env = ?s6\<lparr>ARD_output := m\<rparr>"
    unfolding process_frame_def fc Let_def using m by simp
  then show ?thesis using pe by (subst (asm) stabilize_shape) (simp, blast)
qed

lemma frames_processed_process:
  "frames_processed (process_frame s env) = frames_processed s + 1"
  using process_frame_shape [of s env] by auto

lemma valid_boxes_process:
  "valid_boxes (process_frame s env) = length (frame_detections s env)"
  using process_frame_shape [of s env] by auto

lemma processing_error_process:
  "processing_error (system_errors (process_frame s env)) =
     (frames_processed s + 1 > 100 \<and> valid_boxes s = 0)"
  using process_frame_shape [of s env] by auto

lemma frames_processed_run: "frames_processed (run_frames s envs) = frames_processed s + length envs"
  by (induction envs arbitrary: s) (simp_all add: run_frames_def frames_processed_process)

subsection \<open>The concrete frames\<close>

lemma rect_edges:
  "euclidean (corner (rect x w h) 0) (corner (rect x w h) 1) = \<bar>w\<bar>"
  "euclidean (corner (rect x w h) 1) (corner (rect x w h) 2) = \<bar>h\<bar>"
  by (simp_all add: rect_def euclidean_def)

lemma measure_box_rect:
  "calibrated s \<Longrightarrow> pixels_per_cm s = Some p \<Longrightarrow> 0 < p \<Longrightarrow>
   measure_box s (rect x w h) = Some (min \<bar>w\<bar> \<bar>h\<bar> / p, max \<bar>w\<bar> \<bar>h\<bar> / p)"
  by (simp add: measure_box_def rect_def euclidean_def Let_def)

lemma ready_loaded: "ready loaded_system"
  by (simp add: ready_def loaded_system_def startup_def load_calibration_def BMS_init_def)

lemma ready_process_frame: "ready s \<Longrightarrow> ready (process_frame s env)"
proof -
  assume r: "ready s"
  obtain e h t m where "process_frame s env =
      s\<lparr>frames_processed := frames_processed s + 1, system_errors := e,
        pixels_per_cm := cal_value s env, calibrated := (calibrated s \<or> (aligned_boxes env \<noteq> [] \<and> reference_width_cm s \<noteq> 0)),
        box_type_history := h, total_boxes := t, valid_boxes := length (frame_detections s env),
        stable_detection_count := snd (tracker_step (last_stable_type s, stable_detection_count s) (majority_type (frame_detections s env))),
        last_stable_type := fst (tracker_step (last_stable_type s, stable_detection_count s) (majority_type (frame_detections s env))),
        ARD_output := m\<rparr>"
    using process_frame_shape by blast
  then show ?thesis using r by (simp add: ready_def cal_value_def)
qed

lemma ready_run_frames: "ready s \<Longrightarrow> ready (run_frames s envs)"
  by (induction envs arbitrary: s) (simp_all add: run_frames_def ready_process_frame)

lemma check_fields:
  "calibrated (snd (check_system_errors s env)) = calibrated s"
  "pixels_per_cm (snd (check_system_errors s env)) = pixels_per_cm s"
  "tolerance_cm (snd (check_system_errors s env)) = tolerance_cm s"
  "box_types (snd (check_system_errors s env)) = box_types s"
  by (simp_all add: check_system_errors_def Let_def)

lemma detections_one_box:
  "ready s \<Longrightarrow> frame_detections s (frame_with [r, b]) = 
     (case measure_box s b of None \<Rightarrow> [] | Some (w, h) \<Rightarrow> (case classify_loop 3 (box_types s) w h of (t, v) \<Rightarrow> if v then [t] else []))"
  by (simp add: frame_detections_def frame_classification_def frame_with_def Let_def ready_def check_fields
      classify_step_def measure_box_def classify_box_def split: option.splits prod.splits)

lemma detections_10x20: "ready s \<Longrightarrow> frame_detections s frame_10x20 = [''10x20'']"
  unfolding frame_10x20_def
  by (simp add: detections_one_box) (simp add: ready_def measure_box_rect)

lemma detections_20x20: "ready s \<Longrightarrow> frame_detections s frame_20x20 = [''20x20'']"
  unfolding frame_20x20_def
  by (simp add: detections_one_box) (simp add: ready_def measure_box_rect)

lemma detections_empty: "frame_detections s empty_frame = []"
  by (simp add: frame_detections_def frame_classification_def empty_frame_def frame_with_def Let_def)

lemma majority_single: "majority_type [t] = Some t"
  by (simp add: majority_type_def Counter_def most_common_1_def)

lemma rect_edges_Suc:
  "euclidean (corner (rect x w h) 0) (corner (rect x w h) (Suc 0)) = \<bar>w\<bar>"
  "euclidean (corner (rect x w h) (Suc 0)) (corner (rect x w h) 2) = \<bar>h\<bar>"
  using rect_edges [of x w h] by simp_all

lemma run_one_frame: "run_events s [Frame env] = process_frame s env"
  by (simp add: run_events_def)

lemma startup_fields:
  "calibrated (startup now r None) = False"
  "reference_width_cm (startup now r None) = r"
  by (simp_all add: startup_def load_calibration_def BMS_init_def)

lemma frame_majorities_seven:
  "frame_majorities loaded_system
     [frame_10x20, frame_10x20, frame_10x20, frame_20x20, frame_20x20, frame_20x20, frame_20x20] =
   [Some ''10x20'', Some ''10x20'', Some ''10x20'', Some ''20x20'', Some ''20x20'',
    Some ''20x20'', Some ''20x20'']"
  by (simp add: detections_10x20 detections_20x20 majority_single ready_loaded
        ready_process_frame)

lemma frame_majorities_four:
  "frame_majorities loaded_system [frame_10x20, frame_10x20, frame_10x20, frame_20x20] =
   [Some ''10x20'', Some ''10x20'', Some ''10x20'', Some ''20x20'']"
  by (simp add: detections_10x20 detections_20x20 majority_single ready_loaded
        ready_process_frame)

subsection \<open>Stabilization\<close>

lemma run_frames_Cons: "run_frames s (env # envs) = run_frames (process_frame s env) envs"
  by (simp add: run_frames_def)

lemma run_frames_snoc: "run_frames s (envs @ [env]) = process_frame (run_frames s envs) env"
  by (simp add: run_frames_def)

lemma process_frame_tracker:
  "(last_stable_type (process_frame s env), stable_detection_count (process_frame s env)) =
     tracker_step (last_stable_type s, stable_detection_count s) (majority_type (frame_detections s env))"
proof -
  obtain e h t m where "process_frame s env =
      s\<lparr>frames_processed := frames_processed s + 1, system_errors := e,
        pixels_per_cm := cal_value s env, calibrated := (calibrated s \<or> (aligned_boxes env \<noteq> [] \<and> reference_width_cm s \<noteq> 0)),
        box_type_history := h, total_boxes := t, valid_boxes := length (frame_detections s env),
        stable_detection_count := snd (tracker_step (last_stable_type s, stable_detection_count s) (majority_type (frame_detections s env))),
        last_stable_type := fst (tracker_step (last_stable_type s, stable_detection_count s) (majority_type (frame_detections s env))),
        ARD_output := m\<rparr>"
    using process_frame_shape by blast
  then show ?thesis by simp
qed

lemma run_frames_tracker:
  "(last_stable_type (run_frames s envs), stable_detection_count (run_frames s envs)) =
     foldl tracker_step (last_stable_type s, stable_detection_count s) (frame_majorities s envs)"
proof (induction envs arbitrary: s)
  case Nil
  then show ?case by (simp add: run_frames_def)
next
  case (Cons env envs)
  show ?case
    unfolding run_frames_Cons Cons.IH frame_majorities.simps foldl_Cons process_frame_tracker ..
qed

lemma frame_majorities_take:
  "frame_majorities s (take k envs) = take k (frame_majorities s envs)"
proof (induction envs arbitrary: s k)
  case Nil
  then show ?case by simp
next
  case (Cons env envs)
  then show ?case by (cases k) simp_all
qed

lemma tracker_after:
  "frame_majorities s envs = ms \<Longrightarrow>
   last_stable_type (run_frames s (take k envs)) = fst (foldl tracker_step (last_stable_type s, stable_detection_count s) (take k ms)) \<and>
   stable_detection_count (run_frames s (take k envs)) = snd (foldl tracker_step (last_stable_type s, stable_detection_count s) (take k ms))"
  using run_frames_tracker [of s "take k envs"] frame_majorities_take [of s k envs]
  by (metis fst_conv snd_conv)

lemma tracker_all:
  "frame_majorities s envs = ms \<Longrightarrow>
   last_stable_type (run_frames s envs) = fst (foldl tracker_step (last_stable_type s, stable_detection_count s) ms) \<and>
   stable_detection_count (run_frames s envs) = snd (foldl tracker_step (last_stable_type s, stable_detection_count s) ms)"
  using run_frames_tracker [of s envs]
  by (metis fst_conv snd_conv)

text \<open>
  Claim C4, as amended. When the majority types of seven consecutive frames are
  \<open>A, A, A, B, B, B, B\<close> with \<open>A \<noteq> B\<close>, then after the fourth frame
  \<^verbatim>\<open>last_stable_type\<close> is \<open>B\<close> and the count is 1, and the three further \<open>B\<close> frames
  raise the count to 2, 3 and 4 while \<^verbatim>\<open>last_stable_type\<close> stays \<open>B\<close>: the count is 3
  after two more \<open>B\<close> frames and 4 after three more. A frame without a valid
  classification sets the count to 0 and \<^verbatim>\<open>last_stable_type\<close> to \<^verbatim>\<open>None\<close> at once.
\<close>

theorem stabilization_counts:
  "(A \<noteq> B \<longrightarrow> frame_majorities s envs = [Some A, Some A, Some A, Some B] \<longrightarrow>
      last_stable_type (run_frames s envs) = Some B \<and> stable_detection_count (run_frames s envs) = 1) \<and>
   (A \<noteq> B \<longrightarrow> frame_majorities s envs = [Some A, Some A, Some A, Some B, Some B, Some B, Some B] \<longrightarrow>
      last_stable_type (run_frames s (take 4 envs)) = Some B \<and> stable_detection_count (run_frames s (take 4 envs)) = 1 \<and>
      last_stable_type (run_frames s (take 5 envs)) = Some B \<and> stable_detection_count (run_frames s (take 5 envs)) = 2 \<and>
      last_stable_type (run_frames s (take 6 envs)) = Some B \<and> stable_detection_count (run_frames s (take 6 envs)) = 3 \<and>
      last_stable_type (run_frames s envs) = Some B \<and> stable_detection_count (run_frames s envs) = 4) \<and>
   (frame_detections s env = [] \<longrightarrow>
      stable_detection_count (process_frame s env) = 0 \<and> last_stable_type (process_frame s env) = None)"
proof (intro conjI impI)
  assume ab: "A \<noteq> B" and fm: "frame_majorities s envs = [Some A, Some A, Some A, Some B]"
  from tracker_all [OF fm] ab
  show "last_stable_type (run_frames s envs) = Some B" "stable_detection_count (run_frames s envs) = 1"
    by (simp_all add: tracker_step_def)
next
  assume ab: "A \<noteq> B" and fm: "frame_majorities s envs = [Some A, Some A, Some A, Some B, Some B, Some B, Some B]"
  from tracker_after [OF fm, of 4] ab
  show "last_stable_type (run_frames s (take 4 envs)) = Some B" "stable_detection_count (run_frames s (take 4 envs)) = 1"
    by (simp_all add: tracker_step_def)
  from tracker_after [OF fm, of 5] ab
  show "last_stable_type (run_frames s (take 5 envs)) = Some B" "stable_detection_count (run_frames s (take 5 envs)) = 2"
    by (simp_all add: tracker_step_def)
  from tracker_after [OF fm, of 6] ab
  show "last_stable_type (run_frames s (take 6 envs)) = Some B" "stable_detection_count (run_frames s (take 6 envs)) = 3"
    by (simp_all add: tracker_step_def)
  from tracker_all [OF fm] ab
  show "last_stable_type (run_frames s envs) = Some B" "stable_detection_count (run_frames s envs) = 4"
    by (simp_all add: tracker_step_def)
next
  assume "frame_detections s env = []"
  then show "stable_detection_count (process_frame s env) = 0" "last_stable_type (process_frame s env) = None"
    using process_frame_tracker [of s env] by (simp_all add: majority_type_Nil tracker_step_def)
qed

theorem stabilization_counts_witness:
  "last_stable_type
     (run_frames loaded_system [frame_10x20, frame_10x20, frame_10x20, frame_20x20]) =
     Some ''20x20'' \<and>
   stable_detection_count
     (run_frames loaded_system [frame_10x20, frame_10x20, frame_10x20, frame_20x20]) = 1 \<and>
   last_stable_type
     (run_frames loaded_system
        [frame_10x20, frame_10x20, frame_10x20, frame_20x20, frame_20x20, frame_20x20]) =
     Some ''20x20'' \<and>
   stable_detection_count
     (run_frames loaded_system
        [frame_10x20, frame_10x20, frame_10x20, frame_20x20, frame_20x20, frame_20x20]) = 3 \<and>
   stable_detection_count (process_frame loaded_system empty_frame) = 0 \<and>
   last_stable_type (process_frame loaded_system empty_frame) = None"
  using
    stabilization_counts [of "''10x20''" "''20x20''" loaded_system
      "[frame_10x20, frame_10x20, frame_10x20, frame_20x20]" empty_frame]
    stabilization_counts [of "''10x20''" "''20x20''" loaded_system
      "[frame_10x20, frame_10x20, frame_10x20, frame_20x20, frame_20x20, frame_20x20,
        frame_20x20]" empty_frame]
    frame_majorities_four frame_majorities_seven detections_empty [of loaded_system]
  by simp

text \<open>The claim as stated fails: after the frames \<open>A, A, A, B\<close> and three more \<open>B\<close>
  frames the count is 4, not 3.\<close>

theorem stabilization_count_counterexample:
  "frame_majorities loaded_system
     [frame_10x20, frame_10x20, frame_10x20, frame_20x20, frame_20x20, frame_20x20, frame_20x20] =
   [Some ''10x20'', Some ''10x20'', Some ''10x20'', Some ''20x20'', Some ''20x20'',
    Some ''20x20'', Some ''20x20''] \<and>
   stable_detection_count
     (run_frames loaded_system
        [frame_10x20, frame_10x20, frame_10x20, frame_20x20, frame_20x20, frame_20x20,
         frame_20x20]) = 4"
  using tracker_all [OF frame_majorities_seven] frame_majorities_seven
  by (simp add: tracker_step_def loaded_system_def startup_def load_calibration_def
        BMS_init_def)

subsection \<open>The processing error\<close>

text \<open>
  Claim C3. The claim reads the test of \<^verbatim>\<open>check_system_errors\<close> as ``more than 100
  frames and no valid classification ever''. The code overwrites \<^verbatim>\<open>valid_boxes\<close> with
  the count of the frame just processed (lemma \<open>valid_boxes_process\<close>), so the test is
  ``more than 100 frames and none in the last frame'' (lemma
  \<open>processing_error_process\<close>). In the session below every one of the first 100 frames
  records a valid classification; two frames without a rectangle follow, and
  \<^verbatim>\<open>processing_error\<close> is set.
\<close>

theorem processing_error_after_valid_detection:
  "frame_detections loaded_system frame_10x20 = [''10x20''] \<and>
   valid_boxes (run_frames loaded_system (replicate 100 frame_10x20)) = 1 \<and>
   processing_error (system_errors (run_frames loaded_system (replicate 100 frame_10x20 @ [empty_frame, empty_frame])))"
proof -
  have a: "frame_detections loaded_system frame_10x20 = [''10x20'']"
    by (simp add: detections_10x20 ready_loaded)
  have "replicate (Suc 99) frame_10x20 = replicate 99 frame_10x20 @ [frame_10x20]"
    by (simp only: replicate_Suc replicate_append_same)
  then have "replicate 100 frame_10x20 = replicate 99 frame_10x20 @ [frame_10x20]"
    by simp
  then have b: "valid_boxes (run_frames loaded_system (replicate 100 frame_10x20)) = 1"
    by (simp add: run_frames_snoc valid_boxes_process detections_10x20 ready_run_frames ready_loaded)
  have app: "run_frames s (xs @ [e1, e2]) = process_frame (process_frame (run_frames s xs) e1) e2" for s xs e1 e2
    by (simp add: run_frames_def)
  have c: "processing_error (system_errors (run_frames loaded_system (replicate 100 frame_10x20 @ [empty_frame, empty_frame])))"
    by (simp add: app processing_error_process valid_boxes_process detections_empty
          frames_processed_process frames_processed_run)
  from a b c show ?thesis by blast
qed

subsection \<open>The calibration state\<close>

lemma load_lines_inv: "cal_inv s \<Longrightarrow> cal_inv (load_lines ls s)"
  by (induction ls s rule: load_lines.induct) (simp_all add: cal_inv_def)

lemma init_inv: "cal_inv ((BMS_init now)\<lparr>reference_width_cm := r, reference_height_cm := r\<rparr>)"
  by (simp add: cal_inv_def BMS_init_def)

lemma startup_inv: "cal_inv (startup now r cfile)"
  unfolding startup_def load_calibration_def
  by (cases cfile) (simp_all add: load_lines_inv [OF init_inv] init_inv)

lemma process_frame_cal:
  "calibrated (process_frame s env) =
     (calibrated s \<or> (aligned_boxes env \<noteq> [] \<and> reference_width_cm s \<noteq> 0))"
  "pixels_per_cm (process_frame s env) = cal_value s env"
  "reference_width_cm (process_frame s env) = reference_width_cm s"
  using process_frame_shape [of s env] by auto

lemma process_frame_inv: "cal_inv s \<Longrightarrow> cal_inv (process_frame s env)"
  by (auto simp add: cal_inv_def process_frame_cal cal_value_def)

lemma update_output_map_cal:
  "calibrated (snd (update_output_map s env)) = calibrated s"
  "pixels_per_cm (snd (update_output_map s env)) = pixels_per_cm s"
  using update_output_map_shape [of s env] by auto

lemma run_event_inv: "cal_inv s \<Longrightarrow> cal_inv (run_event s ev)"
  by (cases ev) (simp_all add: process_frame_inv, simp_all add: cal_inv_def update_output_map_cal)

lemma run_events_inv: "cal_inv s \<Longrightarrow> cal_inv (run_events s evs)"
  unfolding run_events_def
  by (induction evs arbitrary: s) (simp_all add: run_event_inv)

text \<open>
  Claim C2, as amended. In every state the session reaches (start-up with or without a
  calibration file, then any frames, status updates and keys), \<^verbatim>\<open>calibrated\<close> implies
  that \<^verbatim>\<open>pixels_per_cm\<close> holds a number; the number need not be positive.
  \<^verbatim>\<open>calibrate_with_reference\<close> with a positive reference width sets \<^verbatim>\<open>calibrated\<close> and
  stores a value that is positive exactly when the smaller edge exceeds 28 times the
  reference width; a value loaded from the file is stored as it is, with
  \<^verbatim>\<open>calibrated\<close> set; and \<^verbatim>\<open>measure_box\<close> yields a measurement only when \<^verbatim>\<open>calibrated\<close>
  holds and \<^verbatim>\<open>pixels_per_cm\<close> is positive.
\<close>

theorem calibration_state:
  "(calibrated (run_events (startup now r cfile) evs) \<longrightarrow>
      pixels_per_cm (run_events (startup now r cfile) evs) \<noteq> None) \<and>
   (0 < reference_width_cm s \<longrightarrow>
      calibrated (snd (calibrate_with_reference s b ok)) \<and>
      (\<exists>v. pixels_per_cm (snd (calibrate_with_reference s b ok)) = Some v \<and>
           (0 < v) = (28 * reference_width_cm s <
                        min (euclidean (corner b 0) (corner b 1)) (euclidean (corner b 1) (corner b 2))))) \<and>
   calibrated (load_calibration (Some [Pixels_line v]) s) \<and>
   pixels_per_cm (load_calibration (Some [Pixels_line v]) s) = Some v \<and>
   (measure_box s b \<noteq> None \<longrightarrow> calibrated s \<and> (\<exists>p. pixels_per_cm s = Some p \<and> 0 < p))"
proof -
  have 1: "calibrated (run_events (startup now r cfile) evs) \<longrightarrow>
      pixels_per_cm (run_events (startup now r cfile) evs) \<noteq> None"
    using run_events_inv [OF startup_inv, of now r cfile evs] by (auto simp add: cal_inv_def)
  have 2: "0 < reference_width_cm s \<longrightarrow>
      calibrated (snd (calibrate_with_reference s b ok)) \<and>
      (\<exists>v. pixels_per_cm (snd (calibrate_with_reference s b ok)) = Some v \<and>
           (0 < v) = (28 * reference_width_cm s <
                        min (euclidean (corner b 0) (corner b 1)) (euclidean (corner b 1) (corner b 2))))"
    by (simp add: calibrate_shape pos_less_divide_eq)
  have 3: "calibrated (load_calibration (Some [Pixels_line v]) s) \<and>
   pixels_per_cm (load_calibration (Some [Pixels_line v]) s) = Some v"
    by (simp add: load_calibration_def)
  have 4: "measure_box s b \<noteq> None \<longrightarrow> calibrated s \<and> (\<exists>p. pixels_per_cm s = Some p \<and> 0 < p)"
    by (cases b) (auto simp add: measure_box_def Let_def split: option.splits if_splits)
  from 1 2 3 4 show ?thesis by blast
qed

theorem calibration_state_witness:
  "pixels_per_cm (run_events (startup 0 2 None) [Frame (frame_with [rect 0 100 100])]) \<noteq> None \<and>
   calibrated (snd (calibrate_with_reference (BMS_init 0) (rect 0 29 30) True)) \<and>
   (\<exists>v. pixels_per_cm (snd (calibrate_with_reference (BMS_init 0) (rect 0 29 30) True)) = Some v \<and> 0 < v) \<and>
   calibrated loaded_system \<and> (\<exists>p. pixels_per_cm loaded_system = Some p \<and> 0 < p)"
proof -
  have a: "calibrated (run_events (startup 0 2 None) [Frame (frame_with [rect 0 100 100])])"
    by (simp add: run_one_frame process_frame_cal startup_fields frame_with_def)
  have b: "0 < reference_width_cm (BMS_init 0)" by (simp add: BMS_init_def)
  have c: "measure_box loaded_system (rect 0 10 20) \<noteq> None"
    using ready_loaded by (simp add: ready_def measure_box_rect)
  have d: "28 * reference_width_cm (BMS_init 0) < min (euclidean (corner (rect 0 29 30) 0) (corner (rect 0 29 30) 1)) (euclidean (corner (rect 0 29 30) 1) (corner (rect 0 29 30) 2))"
    by (simp add: rect_edges_Suc BMS_init_def)
  show ?thesis
    using calibration_state [of 0 2 None "[Frame (frame_with [rect 0 100 100])]" "BMS_init 0" "rect 0 29 30" True 1 ] 
      calibration_state [of 0 2 None "[]" "loaded_system" "rect 0 10 20" True 1 ] a b c d
    by auto
qed

text \<open>The claim as stated fails: a reference rectangle of 20 by 20 pixels with a
  reference width of 2 cm calibrates the system to \<open>20 / 2 - 28 = -18\<close> pixels per cm.\<close>

theorem calibrated_nonpositive_counterexample:
  "calibrated (run_events (startup 0 2 None) [Frame (frame_with [rect 0 20 20])]) \<and>
   pixels_per_cm (run_events (startup 0 2 None) [Frame (frame_with [rect 0 20 20])]) = Some (-18)"
  by (simp add: run_one_frame process_frame_cal cal_value_def startup_fields frame_with_def rect_edges_Suc)

subsection \<open>The angle gate of the detector\<close>

lemma norm2_axis: "norm2 (a, 0) = \<bar>a\<bar>" "norm2 (0, a) = \<bar>a\<bar>"
  by (simp_all add: norm2_def)

lemma acos_zero: "acos 0 = Inr (pi / 2)"
  by (simp add: acos_def)

lemma degrees_right: "degrees (pi / 2) = 90"
  by (simp add: degrees_def)

lemma corner_angle_rect0:
  "0 < w \<Longrightarrow> 0 < h \<Longrightarrow> corner_angle (rect x w h) 0 = Corner_angle 90"
  by (simp add: corner_angle_def rect_def vec_sub_def dot_def norm2_axis acos_zero degrees_right Let_def)
lemma corner_angle_rect1:
  "0 < w \<Longrightarrow> 0 < h \<Longrightarrow> corner_angle (rect x w h) 1 = Corner_angle 90"
  by (simp add: corner_angle_def rect_def vec_sub_def dot_def norm2_axis acos_zero degrees_right Let_def)
lemma corner_angle_rect2:
  "0 < w \<Longrightarrow> 0 < h \<Longrightarrow> corner_angle (rect x w h) 2 = Corner_angle 90"
  by (simp add: corner_angle_def rect_def vec_sub_def dot_def norm2_axis acos_zero degrees_right Let_def)
lemma corner_angle_rect3:
  "0 < w \<Longrightarrow> 0 < h \<Longrightarrow> corner_angle (rect x w h) 3 = Corner_angle 90"
  by (simp add: corner_angle_def rect_def vec_sub_def dot_def norm2_axis acos_zero degrees_right Let_def)

lemma interior_angles_rect:
  "0 < w \<Longrightarrow> 0 < h \<Longrightarrow> interior_angles (rect x w h) [0, 1, 2, 3] [] = Angles [90, 90, 90, 90]"
  using corner_angle_rect1 [of w h x]
  by (simp add: corner_angle_rect0 corner_angle_rect2 corner_angle_rect3)

lemma is_aligned_rect:
  assumes "0 < w" "0 < h" "\<not> angle_rejected s (normalize_angle raw)" "min_rectangle_score s \<le> 1"
  shows "is_aligned_rectangle s raw (rect x w h) =
           (True, Some (rect x w h), Some (normalize_angle raw))"
proof -
  have ia: "interior_angles (rect x w h) [0, 1, 2, 3] [] = Angles [90, 90, 90, 90]"
    using assms(1,2) by (rule interior_angles_rect)
  show ?thesis
    unfolding is_aligned_rectangle_def Let_def ia using assms
    by (simp add: rect_edges_Suc)
qed

lemma is_aligned_rectangle_accepts: "is_aligned_rectangle (BMS_init 0) (-85) (rect 0 10 20) = (True, Some (rect 0 10 20), Some 5)"
proof -
  have n: "normalize_angle (-85) = 5" by (simp add: normalize_angle_def)
  have "\<not> angle_rejected (BMS_init 0) (normalize_angle (-85))"
    unfolding n by (simp add: angle_rejected_def BMS_init_def)
  moreover have "min_rectangle_score (BMS_init 0) \<le> 1" by (simp add: BMS_init_def)
  ultimately show ?thesis using is_aligned_rect [of 10 20 "BMS_init 0" "-85" 0] n by simp
qed

text \<open>
  Claim C5. For every folded rotation angle \<open>A\<close> and every \<^verbatim>\<open>max_angle_deviation\<close>, the
  angle gate of \<^verbatim>\<open>is_aligned_rectangle\<close> lets the candidate pass if and only if
  \<open>min A (90 - A) \<le> max_angle_deviation\<close>; equality passes. A candidate the detector
  accepts has passed the gate with its folded angle.
\<close>

theorem angle_gate_iff:
  "(\<not> angle_rejected s A) = (min A (90 - A) \<le> max_angle_deviation s) \<and>
   (fst (is_aligned_rectangle s raw b) \<longrightarrow>
      min (normalize_angle raw) (90 - normalize_angle raw) \<le> max_angle_deviation s)"
proof -
  have g: "(\<not> angle_rejected s A) = (min A (90 - A) \<le> max_angle_deviation s)" for A
    by (auto simp add: angle_rejected_def min_def)
  have "\<not> angle_rejected s (normalize_angle raw)" if "fst (is_aligned_rectangle s raw b)"
    using that angle_rejected_result [of s raw b] by auto
  then show ?thesis using g by blast
qed

theorem angle_gate_iff_witness:
  "fst (is_aligned_rectangle (BMS_init 0) (-85) (rect 0 10 20)) \<and>
   min (normalize_angle (-85)) (90 - normalize_angle (-85)) \<le> max_angle_deviation (BMS_init 0)"
  using angle_gate_iff [of "BMS_init 0" 0 "-85" "rect 0 10 20"] is_aligned_rectangle_accepts
  by simp

end
